theory Spec2Isabelle
  imports Main "HOL-Library.Word" "HOL-Library.Log_Nat"
begin

unbundle bit_operations_syntax

section \<open>Data model\<close>

text \<open>
  The handlers of \<^verbatim>\<open>handler_upload_video.go\<close> are modelled as functions that take the
  configuration, the behaviour of the collaborators for this request, the request and the
  state of the outside world, and return the world after the handler has returned.
  Go's multi-value returns \<^verbatim>\<open>(value, err)\<close> are pairs whose second component is
  \<open>None\<close> for \<^verbatim>\<open>nil\<close>; an error is represented by its message.
\<close>

type_synonym byte = "8 word"
type_synonym UUID = "128 word"
type_synonym error = string
type_synonym float64 = rat

text \<open>
  Modelled from the spec: \<^verbatim>\<open>database.Video\<close> is declared outside the source file. The
  Record of the specification has an owner identifier and two optional locators; the
  identifier is the key of the store, the remaining columns are never read or written by
  the handlers.
\<close>

record Video =
  ID :: UUID
  CreatedAt :: int
  UpdatedAt :: int
  ThumbnailURL :: "string option"
  VideoURL :: "string option"
  Title :: string
  Description :: string
  UserID :: UUID

definition zeroVideo :: Video where
  "zeroVideo = \<lparr>ID = 0, CreatedAt = 0, UpdatedAt = 0, ThumbnailURL = None, VideoURL = None,
     Title = [], Description = [], UserID = 0\<rparr>"

record apiConfig =
  jwtSecret :: string
  s3Bucket :: string
  s3Region :: string
  assetsRoot :: string
  port :: string

record Request =
  PathValue :: "string \<Rightarrow> string"
  Header :: "string \<Rightarrow> string"
  FormFile :: "string \<Rightarrow> (byte list \<times> string) option"
    \<comment> \<open>the part's bytes and its Content-Type header; \<open>None\<close> when the field is absent\<close>

record PutObjectInput =
  Bucket :: string
  Key :: string
  Body :: "byte list"
  ContentType :: string

record ProbeStream =
  Width :: "64 word"
  Height :: "64 word"

text \<open>Everything a handler does to the outside world is recorded in order.\<close>

datatype event =
    Respond nat string "error option"
  | RespondJSON nat Video
  | DbGet UUID
  | DbUpdate Video
  | ReadFormFile string
  | CreateTemp string
  | Create string
  | Copy string
  | Seek string
  | Open string
  | Close string
  | Remove string
  | Exec string "string list"
  | RandRead nat
  | S3Put PutObjectInput
  | Println
  | Panic

record world =
  db :: "UUID \<rightharpoonup> Video"
  disk :: "string \<rightharpoonup> byte list"
  s3 :: "PutObjectInput list"
  log :: "event list"

text \<open>
  The collaborators: library and external functions whose result the handler only
  consumes. A command run by \<^verbatim>\<open>exec.Command(...).Run()\<close> may change the disk in any way,
  writes its standard output and returns an error on a non-zero exit.
\<close>

record env =
  uuid_Parse :: "string \<Rightarrow> UUID \<times> error option"
  GetBearerToken :: "(string \<Rightarrow> string) \<Rightarrow> string \<times> error option"
  ValidateJWT :: "string \<Rightarrow> string \<Rightarrow> UUID \<times> error option"
  ParseMultipartForm :: "nat \<Rightarrow> error option"
  ParseMediaType :: "string \<Rightarrow> string \<times> error option"
  os_CreateTemp :: "string \<Rightarrow> string \<Rightarrow> string \<times> error option"
  os_Create :: "string \<Rightarrow> error option"
  io_Copy :: "byte list \<Rightarrow> byte list \<times> error option"
  file_Seek :: "string \<Rightarrow> error option"
  cmd_Run :: "string \<Rightarrow> string list \<Rightarrow> (string \<rightharpoonup> byte list)
                \<Rightarrow> (string \<rightharpoonup> byte list) \<times> byte list \<times> error option"
  json_Unmarshal :: "byte list \<Rightarrow> ProbeStream list \<times> error option"
  entropy :: "byte list"
  s3_PutObject :: "PutObjectInput \<Rightarrow> error option"
  db_UpdateVideo :: "Video \<Rightarrow> error option"
  filepath_Join :: "string \<Rightarrow> string \<Rightarrow> string"

section \<open>Helpers declared outside the source file\<close>

definition emit :: "event \<Rightarrow> world \<Rightarrow> world" where
  "emit e s = s\<lparr>log := log s @ [e]\<rparr>"

text \<open>
  Modelled from the spec: \<^verbatim>\<open>respondWithError\<close> and \<^verbatim>\<open>respondWithJSON\<close> are declared
  outside the source file; they write a structured error body with an HTTP status, or the
  record as the success body.
\<close>

definition respondWithError :: "nat \<Rightarrow> string \<Rightarrow> error option \<Rightarrow> world \<Rightarrow> world" where
  "respondWithError code msg err s = emit (Respond code msg err) s"

definition respondWithJSON :: "nat \<Rightarrow> Video \<Rightarrow> world \<Rightarrow> world" where
  "respondWithJSON code v s = emit (RespondJSON code v) s"

text \<open>
  Modelled from the spec: the record store, \<^verbatim>\<open>getRecord(id) -> Record | NotFound\<close> and
  \<^verbatim>\<open>updateRecord(Record) -> ok | error\<close>, both atomic single-record operations.
\<close>

definition GetVideo :: "UUID \<Rightarrow> world \<Rightarrow> (Video \<times> error option) \<times> world" where
  "GetVideo videoID s =
     (case db s videoID of
        None \<Rightarrow> ((zeroVideo, Some ''sql: no rows in result set''), emit (DbGet videoID) s)
      | Some v \<Rightarrow> ((v, None), emit (DbGet videoID) s))"

definition UpdateVideo :: "env \<Rightarrow> Video \<Rightarrow> world \<Rightarrow> error option \<times> world" where
  "UpdateVideo e v s =
     (case db_UpdateVideo e v of
        Some err \<Rightarrow> (Some err, emit (DbUpdate v) s)
      | None \<Rightarrow> (None, emit (DbUpdate v) (s\<lparr>db := (db s)(ID v \<mapsto> v)\<rparr>)))"

subsection \<open>Files\<close>

definition os_Remove :: "string \<Rightarrow> world \<Rightarrow> world" where
  "os_Remove name s = emit (Remove name) (s\<lparr>disk := (disk s)(name := None)\<rparr>)"

definition file_Close :: "string \<Rightarrow> world \<Rightarrow> world" where
  "file_Close name s = emit (Close name) s"

text \<open>\<^verbatim>\<open>io.Copy(dst, file)\<close>: the bytes that reach the destination, and the error.\<close>

definition Copy_to :: "env \<Rightarrow> string \<Rightarrow> byte list \<Rightarrow> world \<Rightarrow> error option \<times> world" where
  "Copy_to e name src s =
     (case io_Copy e src of
        (written, err) \<Rightarrow> (err, emit (Copy name) (s\<lparr>disk := (disk s)(name \<mapsto> written)\<rparr>)))"

definition os_Open :: "string \<Rightarrow> world \<Rightarrow> (byte list \<times> error option) \<times> world" where
  "os_Open name s =
     (case disk s name of
        None \<Rightarrow> (([], Some ''no such file or directory''), emit (Open name) s)
      | Some content \<Rightarrow> ((content, None), emit (Open name) s))"

definition os_CreateTemp_in ::
  "env \<Rightarrow> string \<Rightarrow> string \<Rightarrow> world \<Rightarrow> (string \<times> error option) \<times> world" where
  "os_CreateTemp_in e dir pattern s =
     (case os_CreateTemp e dir pattern of
        (name, Some err) \<Rightarrow> ((name, Some err), emit (CreateTemp name) s)
      | (name, None) \<Rightarrow>
          ((name, None), emit (CreateTemp name) (s\<lparr>disk := (disk s)(name \<mapsto> [])\<rparr>)))"

definition Seek_start :: "env \<Rightarrow> string \<Rightarrow> world \<Rightarrow> error option \<times> world" where
  "Seek_start e name s = (file_Seek e name, emit (Seek name) s)"

definition Run :: "env \<Rightarrow> string \<Rightarrow> string list \<Rightarrow> world \<Rightarrow> (byte list \<times> error option) \<times> world" where
  "Run e name args s =
     (case cmd_Run e name args (disk s) of
        (d, out, err) \<Rightarrow> ((out, err), emit (Exec name args) (s\<lparr>disk := d\<rparr>)))"

text \<open>
  \<^verbatim>\<open>rand.Read(b)\<close> fills the whole slice or fails; the source of random bytes is a
  finite supply here.
\<close>

definition rand_Read :: "env \<Rightarrow> nat \<Rightarrow> world \<Rightarrow> (byte list \<times> error option) \<times> world" where
  "rand_Read e n s =
     (if length (entropy e) < n
      then ((replicate n 0, Some ''rand: read failed''), emit (RandRead n) s)
      else ((take n (entropy e), None), emit (RandRead n) s))"

definition PutObject :: "env \<Rightarrow> PutObjectInput \<Rightarrow> world \<Rightarrow> error option \<times> world" where
  "PutObject e inp s =
     (case s3_PutObject e inp of
        Some err \<Rightarrow> (Some err, emit (S3Put inp) s)
      | None \<Rightarrow> (None, emit (S3Put inp) (s\<lparr>s3 := s3 s @ [inp]\<rparr>)))"

subsection \<open>\<^verbatim>\<open>base64.RawURLEncoding.EncodeToString\<close>\<close>

definition encodeURL :: string where
  "encodeURL = ''ABCDEFGHIJKLMNOPQRSTUVWXYZabcdefghijklmnopqrstuvwxyz0123456789-_''"

definition enc :: "32 word \<Rightarrow> char" where
  "enc v = encodeURL ! unat (v AND 0x3F)"

fun EncodeToString :: "byte list \<Rightarrow> string" where
  "EncodeToString [] = []"
| "EncodeToString [b0] =
     (let val = push_bit 16 (ucast b0 :: 32 word)
      in [enc (drop_bit 18 val), enc (drop_bit 12 val)])"
| "EncodeToString [b0, b1] =
     (let val = push_bit 16 (ucast b0 :: 32 word) OR push_bit 8 (ucast b1)
      in [enc (drop_bit 18 val), enc (drop_bit 12 val), enc (drop_bit 6 val)])"
| "EncodeToString (b0 # b1 # b2 # bs) =
     (let val = push_bit 16 (ucast b0 :: 32 word) OR push_bit 8 (ucast b1) OR ucast b2
      in [enc (drop_bit 18 val), enc (drop_bit 12 val), enc (drop_bit 6 val), enc val])
     @ EncodeToString bs"

subsection \<open>\<^verbatim>\<open>float64\<close>\<close>

text \<open>
  A finite \<^verbatim>\<open>float64\<close> is a rational number. \<open>float64_round\<close> is IEEE 754 rounding to
  nearest, ties to even, to 53 significant bits. The exponent range is not modelled: the
  only values rounded are 64-bit integers, quotients of two of them and four constants, all
  zero or of magnitude between \<open>2 powi - 63\<close> and \<open>2 powi 63\<close>, far inside the normal range.
\<close>

definition round_half_even :: "rat \<Rightarrow> int" where
  "round_half_even y =
     (let f = \<lfloor>y\<rfloor>; d = y - of_int f
      in if d < 1 / 2 then f else if 1 / 2 < d then f + 1 else if even f then f else f + 1)"

text \<open>The exponent \<open>k\<close> of a positive rational: \<open>2 powi k \<le> x < 2 powi (k + 1)\<close>.\<close>

definition exponent :: "rat \<Rightarrow> int" where
  "exponent x =
     (case quotient_of x of
        (p, q) \<Rightarrow>
          (let d = bitlen p - bitlen q
           in if 2 powi d \<le> x then d else d - 1))"

definition round_pos :: "rat \<Rightarrow> rat" where
  "round_pos x =
     of_int (round_half_even (x / 2 powi (exponent x - 52))) * 2 powi (exponent x - 52)"

definition float64_round :: "rat \<Rightarrow> float64" where
  "float64_round x = (if x = 0 then 0 else if x < 0 then - round_pos (- x) else round_pos x)"

definition float64_of_int :: "64 word \<Rightarrow> float64" where
  "float64_of_int i = float64_round (of_int (sint i))"

definition float64_div :: "float64 \<Rightarrow> float64 \<Rightarrow> float64" where
  "float64_div a b = float64_round (a / b)"

section \<open>Video upload (lines 141-355)\<close>

text \<open>Lines 312 to 335 of \<^verbatim>\<open>getVideoAspectRatio\<close>: the tag of the probed streams.\<close>

definition aspect_of :: "ProbeStream list \<Rightarrow> string" where
  "aspect_of streams =
     (case streams of
        [] \<Rightarrow> ''other''
      | st # _ \<Rightarrow>
     (let width = float64_of_int (Width st);
          height = float64_of_int (Height st)
      in if height = 0 then ''other''
         else
     (let ratio = float64_div width height
      in if ratio > float64_round (17 / 10) \<and> ratio < float64_round (18 / 10) then ''16:9''
         else if ratio > float64_round (55 / 100) \<and> ratio < float64_round (57 / 100) then ''9:16''
         else ''other'')))"

definition getVideoAspectRatio ::
  "env \<Rightarrow> string \<Rightarrow> world \<Rightarrow> (string \<times> error option) \<times> world" where
  "getVideoAspectRatio e filePath s0 =
     (case Run e ''ffprobe''
             [''-v'', ''error'', ''-print_format'', ''json'', ''-show_streams'', filePath] s0 of
        ((out, Some err), s) \<Rightarrow> (([], Some (''could not run ffprobe: '' @ err)), s)
      | ((out, None), s) \<Rightarrow>
     (case json_Unmarshal e out of
        (probeOutput, Some err) \<Rightarrow>
          (([], Some (''could not unmarshal ffprobe output: '' @ err)), s)
      | (probeOutput, None) \<Rightarrow> ((aspect_of probeOutput, None), s)))"

definition processVideoForFastStart ::
  "env \<Rightarrow> string \<Rightarrow> world \<Rightarrow> (string \<times> error option) \<times> world" where
  "processVideoForFastStart e filePath s0 =
     (let processedFilePath = filePath @ ''.processing''
      in (case Run e ''ffmpeg''
                [''-i'', filePath, ''-c'', ''copy'', ''-movflags'', ''faststart'', ''-f'', ''mp4'',
                 processedFilePath] s0 of
            ((out, Some err), s) \<Rightarrow> (([], Some (''could not run ffmpeg: '' @ err)), s)
          | ((out, None), s) \<Rightarrow> ((processedFilePath, None), s)))"

definition s3KeyPrefix_of :: "string \<Rightarrow> string" where
  "s3KeyPrefix_of aspectRatio =
     (if aspectRatio = ''16:9'' then ''landscape''
      else if aspectRatio = ''9:16'' then ''portrait''
      else ''other'')"

text \<open>Steps 12 to 14, once the processed file is open; it is closed on return.\<close>

definition video_put ::
  "apiConfig \<Rightarrow> env \<Rightarrow> Video \<Rightarrow> string \<Rightarrow> string \<Rightarrow> string \<Rightarrow> byte list \<Rightarrow> world \<Rightarrow> world" where
  "video_put cfg e video contentType s3Key processedFilePath processedFile s0 =
     file_Close processedFilePath
       (case PutObject e \<lparr>Bucket = s3Bucket cfg, Key = s3Key, Body = processedFile,
                          ContentType = contentType\<rparr> s0 of
          (Some err, s) \<Rightarrow> respondWithError 500 ''Couldn't upload file to S3'' (Some err) s
        | (None, s) \<Rightarrow>
       (let videoURL = ''https://'' @ s3Bucket cfg @ ''.s3.'' @ s3Region cfg @ ''.amazonaws.com/''
                         @ s3Key;
            video = video\<lparr>VideoURL := Some videoURL\<rparr>
        in (case UpdateVideo e video s of
              (Some err, s) \<Rightarrow>
                respondWithError 500 ''Couldn't update video record'' (Some err) s
            | (None, s) \<Rightarrow> respondWithJSON 200 video s)))"

text \<open>Steps 11 and 12, once the processed file exists; it is removed on return.\<close>

definition video_classify ::
  "apiConfig \<Rightarrow> env \<Rightarrow> Video \<Rightarrow> string \<Rightarrow> string \<Rightarrow> string \<Rightarrow> world \<Rightarrow> world" where
  "video_classify cfg e video contentType tempName processedFilePath s0 =
     os_Remove processedFilePath
       (case getVideoAspectRatio e tempName s0 of
          ((aspectRatio, Some err), s) \<Rightarrow>
            respondWithError 500 ''Couldn't get video aspect ratio'' (Some err) s
        | ((aspectRatio, None), s) \<Rightarrow>
       (let s3KeyPrefix = s3KeyPrefix_of aspectRatio
        in (case rand_Read e 32 s of
              ((randBytes, Some err), s) \<Rightarrow>
                respondWithError 500 ''Could not generate random filename for S3 key''
                  (Some err) s
            | ((randBytes, None), s) \<Rightarrow>
       (let s3Key = s3KeyPrefix @ ''/'' @ EncodeToString randBytes @ ''.mp4''
        in (case os_Open processedFilePath s of
              ((processedFile, Some err), s) \<Rightarrow>
                respondWithError 500 ''Couldn't open processed video file'' (Some err) s
            | ((processedFile, None), s) \<Rightarrow>
                video_put cfg e video contentType s3Key processedFilePath processedFile s)))))"

text \<open>Steps 8 to 10, once the temporary file exists; it is closed and removed on return.\<close>

definition video_stage ::
  "apiConfig \<Rightarrow> env \<Rightarrow> Video \<Rightarrow> string \<Rightarrow> byte list \<Rightarrow> string \<Rightarrow> world \<Rightarrow> world" where
  "video_stage cfg e video contentType file tempName s0 =
     os_Remove tempName (file_Close tempName
       (case Copy_to e tempName file s0 of
          (Some err, s) \<Rightarrow>
            respondWithError 500 ''Couldn't copy video to temp file'' (Some err) s
        | (None, s) \<Rightarrow>
       (case Seek_start e tempName s of
          (Some err, s) \<Rightarrow>
            respondWithError 500 ''Couldn't reset temp file pointer'' (Some err) s
        | (None, s) \<Rightarrow>
       (case processVideoForFastStart e tempName s of
          ((processedFilePath, Some err), s) \<Rightarrow>
            respondWithError 500 ''Couldn't process video for fast start'' (Some err) s
        | ((processedFilePath, None), s) \<Rightarrow>
            video_classify cfg e video contentType tempName processedFilePath s))))"

text \<open>Steps 6 and 7, once the form file is there; it is closed on return.\<close>

definition video_validate ::
  "apiConfig \<Rightarrow> env \<Rightarrow> Video \<Rightarrow> byte list \<Rightarrow> string \<Rightarrow> world \<Rightarrow> world" where
  "video_validate cfg e video file contentType s0 =
     file_Close ''video''
       (case ParseMediaType e contentType of
          (parsedMediaType, Some err) \<Rightarrow>
            respondWithError 400 ''Failed to parse media type'' (Some err) s0
        | (parsedMediaType, None) \<Rightarrow>
       (if parsedMediaType \<noteq> ''video/mp4''
        then respondWithError 400
               (''Unsupported file type: '' @ parsedMediaType @ ''. Only MP4 videos are allowed.'')
               None s0
        else
       (case os_CreateTemp_in e [] ''tubely-upload-*.mp4'' s0 of
          ((tempName, Some err), s) \<Rightarrow>
            respondWithError 500 ''Couldn't create temp file'' (Some err) s
        | ((tempName, None), s) \<Rightarrow> video_stage cfg e video contentType file tempName s)))"

definition handlerUploadVideo :: "apiConfig \<Rightarrow> env \<Rightarrow> Request \<Rightarrow> world \<Rightarrow> world" where
  "handlerUploadVideo cfg e r s0 =
     (case uuid_Parse e (PathValue r ''videoID'') of
        (videoID, Some err) \<Rightarrow> respondWithError 400 ''Invalid video ID'' (Some err) s0
      | (videoID, None) \<Rightarrow>
     (case GetBearerToken e (Header r) of
        (token, Some err) \<Rightarrow> respondWithError 401 ''Couldn't find JWT'' (Some err) s0
      | (token, None) \<Rightarrow>
     (case ValidateJWT e token (jwtSecret cfg) of
        (userID, Some err) \<Rightarrow> respondWithError 401 ''Couldn't validate JWT'' (Some err) s0
      | (userID, None) \<Rightarrow>
     (case GetVideo videoID s0 of
        ((video, Some err), s) \<Rightarrow> respondWithError 404 ''Video not found'' (Some err) s
      | ((video, None), s) \<Rightarrow>
     (if UserID video \<noteq> userID
      then respondWithError 401 ''You are not authorized to upload this video'' None s
      else
     (case FormFile r ''video'' of
        None \<Rightarrow>
          respondWithError 400 ''Couldn't get video file from form''
            (Some ''http: no such file'') (emit (ReadFormFile ''video'') s)
      | Some (file, contentType) \<Rightarrow>
          video_validate cfg e video file contentType
            (emit (ReadFormFile ''video'') s)))))))"

section \<open>Thumbnail upload (lines 372-503)\<close>

definition getFileExtension :: "string \<Rightarrow> string \<times> error option" where
  "getFileExtension contentType =
     (if contentType = ''image/jpeg'' then (''.jpg'', None)
      else if contentType = ''image/png'' then (''.png'', None)
      else if contentType = ''image/gif'' then (''.gif'', None)
      else ([], Some (''unsupported content type: '' @ contentType)))"

text \<open>Steps 9 to 12, after the file has been written.\<close>

definition thumbnail_record :: "apiConfig \<Rightarrow> env \<Rightarrow> UUID \<Rightarrow> UUID \<Rightarrow> string \<Rightarrow> world \<Rightarrow> world" where
  "thumbnail_record cfg e videoID userID filename s0 =
     (case GetVideo videoID s0 of
        ((video, Some err), s) \<Rightarrow> respondWithError 404 ''Video not found'' (Some err) s
      | ((video, None), s) \<Rightarrow>
     (if UserID video \<noteq> userID
      then respondWithError 401
             ''You are not authorized to upload a thumbnail for this video'' None s
      else
        (let thumbnailURL = ''http://localhost:'' @ port cfg @ ''/assets/'' @ filename;
             video = video\<lparr>ThumbnailURL := Some thumbnailURL\<rparr>
         in (case UpdateVideo e video s of
               (Some err, s) \<Rightarrow>
                 respondWithError 500 ''Couldn't update video metadata'' (Some err) s
             | (None, s) \<Rightarrow> respondWithJSON 200 video s))))"

text \<open>Steps 5 to 8: name the file, create it, copy the upload; \<^verbatim>\<open>dst\<close> is closed on return.\<close>

definition thumbnail_store ::
  "apiConfig \<Rightarrow> env \<Rightarrow> UUID \<Rightarrow> UUID \<Rightarrow> byte list \<Rightarrow> string \<Rightarrow> world \<Rightarrow> world" where
  "thumbnail_store cfg e videoID userID file fileExt s0 =
     (case rand_Read e 32 s0 of
        ((randBytes, Some err), s) \<Rightarrow>
          respondWithError 500 ''Could not generate random filename'' (Some err) s
      | ((randBytes, None), s) \<Rightarrow>
     (let filename = EncodeToString randBytes @ fileExt;
          filePath = filepath_Join e (assetsRoot cfg) filename
      in (case os_Create e filePath of
            Some err \<Rightarrow>
              respondWithError 500 ''Couldn't create file on disk'' (Some err)
                (emit (Create filePath) s)
          | None \<Rightarrow>
     (let s = emit (Create filePath) (s\<lparr>disk := (disk s)(filePath \<mapsto> [])\<rparr>)
      in file_Close filePath
           (case Copy_to e filePath file s of
              (Some err, s) \<Rightarrow>
                respondWithError 500 ''Couldn't save file to disk'' (Some err) s
            | (None, s) \<Rightarrow> thumbnail_record cfg e videoID userID filename s)))))"

text \<open>Steps 3 and 4, once the form file is there.\<close>

definition thumbnail_validate ::
  "apiConfig \<Rightarrow> env \<Rightarrow> UUID \<Rightarrow> UUID \<Rightarrow> byte list \<Rightarrow> string \<Rightarrow> world \<Rightarrow> world" where
  "thumbnail_validate cfg e videoID userID file mediaType s =
     (if mediaType = []
      then respondWithError 400 ''Content-Type header is missing'' None s
      else
     (case ParseMediaType e mediaType of
        (parsedMediaType, Some err) \<Rightarrow>
          respondWithError 400 ''Failed to parse media type'' (Some err) s
      | (parsedMediaType, None) \<Rightarrow>
     (if parsedMediaType \<noteq> ''image/jpeg'' \<and> parsedMediaType \<noteq> ''image/png''
      then respondWithError 400
             (''Unsupported file type: '' @ parsedMediaType @ ''. Only JPEG and PNG are allowed.'')
             None s
      else
     (case getFileExtension parsedMediaType of
        (fileExt, Some err) \<Rightarrow> respondWithError 400 err None s
      | (fileExt, None) \<Rightarrow> thumbnail_store cfg e videoID userID file fileExt s))))"

text \<open>The handler up to step 2; the form file is closed on return.\<close>

definition handlerUploadThumbnail :: "apiConfig \<Rightarrow> env \<Rightarrow> Request \<Rightarrow> world \<Rightarrow> world" where
  "handlerUploadThumbnail cfg e r s0 =
     (case uuid_Parse e (PathValue r ''videoID'') of
        (videoID, Some err) \<Rightarrow> respondWithError 400 ''Invalid ID'' (Some err) s0
      | (videoID, None) \<Rightarrow>
     (case GetBearerToken e (Header r) of
        (token, Some err) \<Rightarrow> respondWithError 401 ''Couldn't find JWT'' (Some err) s0
      | (token, None) \<Rightarrow>
     (case ValidateJWT e token (jwtSecret cfg) of
        (userID, Some err) \<Rightarrow> respondWithError 401 ''Couldn't validate JWT'' (Some err) s0
      | (userID, None) \<Rightarrow>
     (let s = emit Println s0
      in (case ParseMultipartForm e (10 * 2 ^ 20) of
            Some err \<Rightarrow> respondWithError 400 ''Failed to parse form data'' (Some err) s
          | None \<Rightarrow>
     (case FormFile r ''thumbnail'' of
        None \<Rightarrow>
          respondWithError 400 ''Couldn't get thumbnail file from form''
            (Some ''http: no such file'') (emit (ReadFormFile ''thumbnail'') s)
      | Some (file, mediaType) \<Rightarrow>
          file_Close ''thumbnail''
            (thumbnail_validate cfg e videoID userID file mediaType
               (emit (ReadFormFile ''thumbnail'') s))))))))"

section \<open>Video upload, first form (lines 17-121)\<close>

text \<open>
  The source file holds the handler a second time, without transcoding and probing. Its
  first six checks respond and do not return. \<^verbatim>\<open>file.Close()\<close> on the nil interface that
  a failed \<^verbatim>\<open>FormFile\<close> returns panics.
\<close>

text \<open>Steps 8 to 12, once the temporary file exists; it is closed and removed on return.\<close>

definition first_stage ::
  "apiConfig \<Rightarrow> env \<Rightarrow> Video \<Rightarrow> string \<Rightarrow> byte list \<Rightarrow> string \<Rightarrow> world \<Rightarrow> world" where
  "first_stage cfg e video contentType file tempName s0 =
     os_Remove tempName (file_Close tempName
       (case Copy_to e tempName file s0 of
          (Some err, s) \<Rightarrow>
            respondWithError 500 ''Couldn't copy video to temp file'' (Some err) s
        | (None, s) \<Rightarrow>
       (case Seek_start e tempName s of
          (Some err, s) \<Rightarrow>
            respondWithError 500 ''Couldn't reset temp file pointer'' (Some err) s
        | (None, s) \<Rightarrow>
       (case rand_Read e 32 s of
          ((randBytes, Some err), s) \<Rightarrow>
            respondWithError 500 ''Could not generate random filename for S3 key'' (Some err) s
        | ((randBytes, None), s) \<Rightarrow>
       (let s3Key = EncodeToString randBytes @ ''.mp4''
        in (case PutObject e \<lparr>Bucket = s3Bucket cfg, Key = s3Key,
                               Body = (case disk s tempName of None \<Rightarrow> [] | Some b \<Rightarrow> b),
                               ContentType = contentType\<rparr> s of
              (Some err, s) \<Rightarrow>
                respondWithError 500 ''Couldn't upload file to S3'' (Some err) s
            | (None, s) \<Rightarrow>
       (let videoURL = ''https://'' @ s3Bucket cfg @ ''.s3.'' @ s3Region cfg @ ''.amazonaws.com/''
                         @ s3Key;
            video = video\<lparr>VideoURL := Some videoURL\<rparr>
        in (case UpdateVideo e video s of
              (Some err, s) \<Rightarrow>
                respondWithError 500 ''Couldn't update video record'' (Some err) s
            | (None, s) \<Rightarrow> respondWithJSON 200 video s))))))))"

text \<open>Steps 6 and 7.\<close>

definition first_validate ::
  "apiConfig \<Rightarrow> env \<Rightarrow> Video \<Rightarrow> byte list \<Rightarrow> string \<Rightarrow> world \<Rightarrow> world" where
  "first_validate cfg e video file contentType s0 =
     (case ParseMediaType e contentType of
        (parsedMediaType, Some err) \<Rightarrow>
          respondWithError 400 ''Failed to parse media type'' (Some err) s0
      | (parsedMediaType, None) \<Rightarrow>
     (if parsedMediaType \<noteq> ''video/mp4''
      then respondWithError 400
             (''Unsupported file type: '' @ parsedMediaType @ ''. Only MP4 videos are allowed.'')
             None s0
      else
     (case os_CreateTemp_in e [] ''tubely-upload.mp4'' s0 of
        ((tempName, Some err), s) \<Rightarrow>
          respondWithError 500 ''Couldn't create temp file'' (Some err) s
      | ((tempName, None), s) \<Rightarrow> first_stage cfg e video contentType file tempName s)))"

definition handlerUploadVideo_first :: "apiConfig \<Rightarrow> env \<Rightarrow> Request \<Rightarrow> world \<Rightarrow> world" where
  "handlerUploadVideo_first cfg e r s0 =
     (case uuid_Parse e (PathValue r ''videoID'') of
        (videoID, err) \<Rightarrow>
     (let w1 = (case err of
                  Some er \<Rightarrow> respondWithError 400 ''Invalid video ID'' (Some er) s0
                | None \<Rightarrow> s0)
      in (case GetBearerToken e (Header r) of
            (token, err) \<Rightarrow>
     (let w2 = (case err of
                  Some er \<Rightarrow> respondWithError 401 ''Couldn't find JWT'' (Some er) w1
                | None \<Rightarrow> w1)
      in (case ValidateJWT e token (jwtSecret cfg) of
            (userID, err) \<Rightarrow>
     (let w3 = (case err of
                  Some er \<Rightarrow> respondWithError 401 ''Couldn't validate JWT'' (Some er) w2
                | None \<Rightarrow> w2)
      in (case GetVideo videoID w3 of
            ((video, err), w4) \<Rightarrow>
     (let w5 = (case err of
                  Some er \<Rightarrow> respondWithError 404 ''Video not found'' (Some er) w4
                | None \<Rightarrow> w4);
          w6 = (if UserID video \<noteq> userID
                then respondWithError 401 ''You are not authorized to upload this video'' None w5
                else w5)
      in (case FormFile r ''video'' of
            None \<Rightarrow>
              emit Panic
                (respondWithError 400 ''Couldn't get video file from form''
                   (Some ''http: no such file'') (emit (ReadFormFile ''video'') w6))
          | Some (file, contentType) \<Rightarrow>
              first_validate cfg e video file contentType
                (file_Close ''video'' (emit (ReadFormFile ''video'') w6)))))))))))"

section \<open>Traces\<close>

text \<open>
  Vocabulary for the properties: the responses in a log, the events that only release a
  resource, and the events of one kind that a log contains.
\<close>

fun is_error :: "event \<Rightarrow> bool" where
  "is_error (Respond code msg err) = True"
| "is_error _ = False"

fun is_response :: "event \<Rightarrow> bool" where
  "is_response (Respond code msg err) = True"
| "is_response (RespondJSON code v) = True"
| "is_response _ = False"

fun is_cleanup :: "event \<Rightarrow> bool" where
  "is_cleanup (Close name) = True"
| "is_cleanup (Remove name) = True"
| "is_cleanup _ = False"

text \<open>After the first error response nothing but the release of resources follows.\<close>

fun stops_at_error :: "event list \<Rightarrow> bool" where
  "stops_at_error [] = True"
| "stops_at_error (ev # evs) =
     (if is_error ev then list_all is_cleanup evs else stops_at_error evs)"

definition halted :: "world \<Rightarrow> bool" where
  "halted s = stops_at_error (log s)"

definition quiet :: "world \<Rightarrow> bool" where
  "quiet s = (\<not> list_ex is_error (log s))"

definition fresh :: "world \<Rightarrow> bool" where
  "fresh s = (\<not> list_ex is_response (log s))"

definition only :: "(event \<Rightarrow> bool) \<Rightarrow> world \<Rightarrow> bool" where
  "only Q s = list_all Q (log s)"

text \<open>
  The outcome of a request on the store \<open>d\<close>: one error response and the store as it was, or
  one success response carrying a record \<open>v\<close> accepted by \<open>ok\<close>, stored under its key.
\<close>

definition settled :: "(UUID \<rightharpoonup> Video) \<Rightarrow> (Video \<Rightarrow> bool) \<Rightarrow> world \<Rightarrow> bool" where
  "settled d ok s =
     ((db s = d \<and> (\<exists>code msg err. filter is_response (log s) = [Respond code msg err]))
      \<or> (\<exists>v. ok v \<and> db s = d(ID v \<mapsto> v) \<and> filter is_response (log s) = [RespondJSON 200 v]))"

text \<open>The record the store returns for an identifier, and the declared type of a part.\<close>

definition fetched :: "world \<Rightarrow> UUID \<Rightarrow> Video" where
  "fetched s videoID = (case db s videoID of None \<Rightarrow> zeroVideo | Some v \<Rightarrow> v)"

definition declared :: "Request \<Rightarrow> string \<Rightarrow> string" where
  "declared r field = (case FormFile r field of None \<Rightarrow> [] | Some (file, contentType) \<Rightarrow> contentType)"

text \<open>What the prober reports for the file at \<open>path\<close> on the disk \<open>d\<close>.\<close>

definition probed :: "env \<Rightarrow> string \<Rightarrow> (string \<rightharpoonup> byte list) \<Rightarrow> ProbeStream list" where
  "probed e path d =
     fst (json_Unmarshal e (fst (snd (cmd_Run e ''ffprobe''
       [''-v'', ''error'', ''-print_format'', ''json'', ''-show_streams'', path] d))))"

definition tempName :: "env \<Rightarrow> string" where
  "tempName e = fst (os_CreateTemp e [] ''tubely-upload-*.mp4'')"

text \<open>What the video handler may do, for a fetched record, a declared type and a staged file.\<close>

fun video_event :: "apiConfig \<Rightarrow> env \<Rightarrow> Video \<Rightarrow> string \<Rightarrow> string \<Rightarrow> event \<Rightarrow> bool" where
  "video_event cfg e video ct t (Exec name args) =
     (name = ''ffmpeg'' \<and>
        args = [''-i'', t, ''-c'', ''copy'', ''-movflags'', ''faststart'', ''-f'', ''mp4'',
                t @ ''.processing'']
      \<or> name = ''ffprobe'' \<and>
        args = [''-v'', ''error'', ''-print_format'', ''json'', ''-show_streams'', t])"
| "video_event cfg e video ct t (S3Put inp) =
     (Bucket inp = s3Bucket cfg \<and> ContentType inp = ct \<and>
      (\<exists>d. Key inp = s3KeyPrefix_of (aspect_of (probed e t d)) @ ''/''
                       @ EncodeToString (take 32 (entropy e)) @ ''.mp4''))"
| "video_event cfg e video ct t (DbUpdate v) =
     (\<exists>key. v = video\<lparr>VideoURL :=
        Some (''https://'' @ s3Bucket cfg @ ''.s3.'' @ s3Region cfg @ ''.amazonaws.com/'' @ key)\<rparr>)"
| "video_event cfg e video ct t (CreateTemp name) = (name = t)"
| "video_event cfg e video ct t (Copy name) = (name = t)"
| "video_event cfg e video ct t (Open name) = (name = t @ ''.processing'')"
| "video_event cfg e video ct t (Remove name) = (name = t \<or> name = t @ ''.processing'')"
| "video_event cfg e video ct t (Create name) = False"
| "video_event cfg e video ct t Panic = False"
| "video_event cfg e video ct t ev = True"

text \<open>What the thumbnail handler may do, for a fetched record.\<close>

fun thumbnail_event :: "apiConfig \<Rightarrow> Video option \<Rightarrow> event \<Rightarrow> bool" where
  "thumbnail_event cfg stored (DbUpdate v) =
     (\<exists>video filename. stored = Some video \<and> v = video\<lparr>ThumbnailURL :=
        Some (''http://localhost:'' @ port cfg @ ''/assets/'' @ filename)\<rparr>)"
| "thumbnail_event cfg stored (Exec name args) = False"
| "thumbnail_event cfg stored (S3Put inp) = False"
| "thumbnail_event cfg stored (Remove name) = False"
| "thumbnail_event cfg stored Panic = False"
| "thumbnail_event cfg stored ev = True"

section \<open>A concrete deployment\<close>

text \<open>
  One configuration, one set of collaborators and one store, for running the handlers.
  \<open>demo_ParseMediaType\<close> returns what \<^verbatim>\<open>mime.ParseMediaType\<close> returns on the values used
  here (a lower-case type and subtype, optionally followed by a parameter): the text
  before the first semicolon, or an error when the subtype is missing.
\<close>

definition demo_cfg :: apiConfig where
  "demo_cfg = \<lparr>jwtSecret = ''secret'', s3Bucket = ''tubely'', s3Region = ''us-east-1'',
                assetsRoot = ''assets'', port = ''8091''\<rparr>"

definition demo_ParseMediaType :: "string \<Rightarrow> string \<times> error option" where
  "demo_ParseMediaType v =
     (let base = takeWhile (\<lambda>c. c \<noteq> CHR '';'') v
      in if base = [] then ([], Some ''mime: no media type'')
         else if last base = CHR ''/'' then ([], Some ''mime: expected token after slash'')
         else (base, None))"

definition alice :: UUID where "alice = 7"
definition bob :: UUID where "bob = 8"

definition demo_video :: Video where
  "demo_video = \<lparr>ID = 1, CreatedAt = 0, UpdatedAt = 0, ThumbnailURL = None, VideoURL = None,
                  Title = ''Holiday'', Description = ''At the sea'', UserID = alice\<rparr>"

definition demo_env :: env where
  "demo_env =
     \<lparr>uuid_Parse = (\<lambda>v. if v = ''00000000-0000-0000-0000-000000000001'' then (1, None)
                        else (0, Some ''invalid UUID length'')),
      GetBearerToken = (\<lambda>h. if h ''Authorization'' = [] then ([], Some ''no auth header'')
                            else (drop 7 (h ''Authorization''), None)),
      ValidateJWT = (\<lambda>token secret.
                       if token = ''alice-token'' then (alice, None)
                       else if token = ''bob-token'' then (bob, None)
                       else (0, Some ''token is malformed'')),
      ParseMultipartForm = (\<lambda>n. None),
      ParseMediaType = demo_ParseMediaType,
      os_CreateTemp = (\<lambda>dir pattern. (''/tmp/tubely-upload-1.mp4'', None)),
      os_Create = (\<lambda>name. None),
      io_Copy = (\<lambda>src. (src, None)),
      file_Seek = (\<lambda>name. None),
      cmd_Run = (\<lambda>name args d.
                   if name = ''ffmpeg'' then (d(last args := d (args ! 1)), [], None)
                   else (d, [], None)),
      json_Unmarshal = (\<lambda>out. ([\<lparr>Width = 1920, Height = 1080\<rparr>], None)),
      entropy = replicate 32 0,
      s3_PutObject = (\<lambda>inp. None),
      db_UpdateVideo = (\<lambda>v. None),
      filepath_Join = (\<lambda>dir name. dir @ ''/'' @ name)\<rparr>"

definition demo_request :: "string \<Rightarrow> string \<Rightarrow> string \<Rightarrow> Request" where
  "demo_request token field contentType =
     \<lparr>PathValue = (\<lambda>k. if k = ''videoID'' then ''00000000-0000-0000-0000-000000000001'' else []),
      Header = (\<lambda>k. if k = ''Authorization'' then ''Bearer '' @ token else []),
      FormFile = (\<lambda>k. if k = field then Some ([1, 2, 3], contentType) else None)\<rparr>"

definition demo_world :: world where
  "demo_world = \<lparr>db = [1 \<mapsto> demo_video], disk = Map.empty, s3 = [], log = []\<rparr>"

section \<open>Rounding to \<^verbatim>\<open>float64\<close>\<close>

text \<open>
  The exponent is the one of the binade, rounding is monotone, integers of magnitude up to
  \<open>2 ^ 53\<close> are exact, and the four bounds of the bands have the values Go gives them.
\<close>

lemma bitlen_powi:
  assumes "0 < p"
  shows "2 powi (bitlen p - 1) \<le> (of_int p :: rat)" and "(of_int p :: rat) < 2 powi bitlen p"
proof -
  have ge1: "1 \<le> bitlen p"
    using assms bitlen_eq_zero_iff [of p] bitlen_nonneg [of p] by linarith
  have "(2::int) ^ nat (bitlen p - 1) \<le> p" and "p < 2 ^ nat (bitlen p)"
    using bitlen_bounds [OF assms] by simp_all
  then have "(of_int (2 ^ nat (bitlen p - 1)) :: rat) \<le> of_int p"
    and "(of_int p :: rat) < of_int (2 ^ nat (bitlen p))"
    by (simp_all only: of_int_le_iff of_int_less_iff)
  then show "2 powi (bitlen p - 1) \<le> (of_int p :: rat)" and "(of_int p :: rat) < 2 powi bitlen p"
    using ge1 by (simp_all add: power_int_nonneg_exp)
qed

lemma exponent_bounds:
  assumes "0 < x"
  shows "2 powi exponent x \<le> x" and "x < 2 powi (exponent x + 1)"
proof -
  obtain p q where pq: "quotient_of x = (p, q)" by (cases "quotient_of x")
  have q: "0 < q" using pq by (rule quotient_of_denom_pos)
  have x: "x = of_int p / of_int q" using pq by (rule quotient_of_div)
  have p: "0 < p" using assms x q by (simp add: zero_less_divide_iff)
  define a b where "a = bitlen p" and "b = bitlen q"
  have pa: "2 powi (a - 1) \<le> (of_int p :: rat)" "(of_int p :: rat) < 2 powi a"
    using bitlen_powi [OF p] by (simp_all add: a_def)
  have qb: "2 powi (b - 1) \<le> (of_int q :: rat)" "(of_int q :: rat) < 2 powi b"
    using bitlen_powi [OF q] by (simp_all add: b_def)
  have qpos: "(0::rat) < of_int q" using q by simp
  have "2 powi (a - b - 1) * of_int q < (2::rat) powi (a - b - 1) * 2 powi b"
    using qb(2) by (intro mult_strict_left_mono) simp_all
  also have "\<dots> = 2 powi (a - 1)"
    by (simp flip: power_int_add)
  also have "\<dots> \<le> of_int p" by (rule pa(1))
  finally have lower: "2 powi (a - b - 1) < x"
    using qpos by (simp add: x pos_less_divide_eq)
  have "(of_int p :: rat) < 2 powi a" by (rule pa(2))
  also have "\<dots> = 2 powi (a - b + 1) * 2 powi (b - 1)"
    by (simp flip: power_int_add)
  also have "\<dots> \<le> 2 powi (a - b + 1) * of_int q"
    using qb(1) by (intro mult_left_mono) simp_all
  finally have upper: "x < 2 powi (a - b + 1)"
    using qpos by (simp add: x pos_divide_less_eq)
  have e: "exponent x = (if 2 powi (a - b) \<le> x then a - b else a - b - 1)"
    by (simp add: exponent_def pq a_def b_def Let_def)
  show "2 powi exponent x \<le> x" using lower by (simp add: e)
  show "x < 2 powi (exponent x + 1)" using upper by (simp add: e not_le)
qed

lemma exponent_eqI:
  assumes "0 < x" "2 powi k \<le> x" "x < 2 powi (k + 1)"
  shows "exponent x = k"
proof -
  have "(2::rat) powi k < 2 powi (exponent x + 1)"
    using assms(2) exponent_bounds(2) [OF assms(1)] by (rule le_less_trans)
  then have 1: "k < exponent x + 1"
    by (metis linorder_not_less one_less_numeral_iff power_int_increasing semiring_norm(76) order_less_imp_le)
  have "(2::rat) powi exponent x < 2 powi (k + 1)"
    using exponent_bounds(1) [OF assms(1)] assms(3) by (rule le_less_trans)
  then have 2: "exponent x < k + 1"
    by (metis linorder_not_less one_less_numeral_iff power_int_increasing semiring_norm(76) order_less_imp_le)
  show ?thesis using 1 2 by simp
qed

lemma round_half_even_of_int [simp]: "round_half_even (of_int n) = n"
  by (simp add: round_half_even_def)

lemma round_half_even_numeral [simp]: "round_half_even (numeral w) = numeral w"
  using round_half_even_of_int [of "numeral w"] by simp

lemma round_half_even_range:
  "round_half_even y = \<lfloor>y\<rfloor> \<or> round_half_even y = \<lfloor>y\<rfloor> + 1"
  by (simp add: round_half_even_def Let_def)

lemma round_half_even_mono:
  assumes "a \<le> b"
  shows "round_half_even a \<le> round_half_even b"
proof (cases "\<lfloor>a\<rfloor> = \<lfloor>b\<rfloor>")
  case True
  have "a - of_int \<lfloor>a\<rfloor> \<le> b - of_int \<lfloor>b\<rfloor>" using assms True by simp
  then show ?thesis unfolding round_half_even_def Let_def True by auto
next
  case False
  then have "\<lfloor>a\<rfloor> < \<lfloor>b\<rfloor>" using floor_mono [OF assms] by linarith
  then show ?thesis
    using round_half_even_range [of a] round_half_even_range [of b] by linarith
qed

lemma round_pos_bounds:
  assumes "0 < x"
  shows "2 powi exponent x \<le> round_pos x" and "round_pos x \<le> 2 powi (exponent x + 1)"
proof -
  define k where "k = exponent x"
  define u :: rat where "u = 2 powi (k - 52)"
  have u: "0 < u" by (simp add: u_def)
  have lo: "2 powi k \<le> x" and hi: "x < 2 powi (k + 1)"
    using exponent_bounds [OF assms] by (simp_all add: k_def)
  have eq1: "(2::rat) powi k = 2 ^ 52 * u"
    unfolding u_def by (simp add: power_int_diff)
  have eq2: "(2::rat) powi (k + 1) = 2 ^ 53 * u"
    unfolding u_def by (simp add: power_int_diff power_int_add)
  have "(2::rat) ^ 52 \<le> x / u" using lo u by (simp add: eq1 pos_le_divide_eq)
  then have "round_half_even (of_int (2 ^ 52)) \<le> round_half_even (x / u)"
    by (intro round_half_even_mono) simp
  then have a: "2 ^ 52 \<le> round_half_even (x / u)" by simp
  have "x / u \<le> 2 ^ 53" using hi u by (simp add: eq2 pos_divide_le_eq)
  then have "round_half_even (x / u) \<le> round_half_even (of_int (2 ^ 53))"
    by (intro round_half_even_mono) simp
  then have b: "round_half_even (x / u) \<le> 2 ^ 53" by simp
  have rp: "round_pos x = of_int (round_half_even (x / u)) * u"
    by (simp add: round_pos_def k_def u_def)
  have "(2::rat) ^ 52 \<le> of_int (round_half_even (x / u))"
    using a by (metis of_int_le_iff of_int_numeral of_int_power)
  then show "2 powi exponent x \<le> round_pos x"
    using u by (simp add: rp eq1 flip: k_def)
  have "(of_int (round_half_even (x / u)) :: rat) \<le> 2 ^ 53"
    using b by (metis of_int_le_iff of_int_numeral of_int_power)
  then show "round_pos x \<le> 2 powi (exponent x + 1)"
    using u by (simp add: rp eq2 flip: k_def)
qed

lemma exponent_mono:
  assumes "0 < x" "x \<le> y"
  shows "exponent x \<le> exponent y"
proof -
  have "0 < y" using assms by simp
  have "(2::rat) powi exponent x < 2 powi (exponent y + 1)"
    using exponent_bounds(1) [OF assms(1)] assms(2) exponent_bounds(2) [OF \<open>0 < y\<close>] by linarith
  then have "exponent x < exponent y + 1"
    by (metis linorder_not_less one_less_numeral_iff power_int_increasing semiring_norm(76) order_less_imp_le)
  then show ?thesis by simp
qed

lemma round_pos_mono:
  assumes "0 < x" "x \<le> y"
  shows "round_pos x \<le> round_pos y"
proof (cases "exponent x = exponent y")
  case True
  have "x / 2 powi (exponent y - 52) \<le> y / 2 powi (exponent y - 52)"
    using assms(2) by (simp add: divide_right_mono)
  then have "round_half_even (x / 2 powi (exponent y - 52))
      \<le> round_half_even (y / 2 powi (exponent y - 52))"
    by (rule round_half_even_mono)
  then show ?thesis
    by (simp add: round_pos_def True mult_right_mono)
next
  case False
  have "0 < y" using assms by simp
  have "exponent x + 1 \<le> exponent y"
    using False exponent_mono [OF assms] by simp
  then have "(2::rat) powi (exponent x + 1) \<le> 2 powi exponent y"
    by (intro power_int_increasing) simp_all
  then show ?thesis
    using round_pos_bounds(2) [OF assms(1)] round_pos_bounds(1) [OF \<open>0 < y\<close>] by linarith
qed

lemma round_pos_pos: "0 < x \<Longrightarrow> 0 < round_pos x"
  using round_pos_bounds(1) [of x] zero_less_power_int [of "2::rat" "exponent x"] by linarith

lemma float64_round_mono:
  assumes "x \<le> y"
  shows "float64_round x \<le> float64_round y"
proof -
  consider "0 < x" | "x \<le> 0" "0 < y" | "x = 0" "y = 0" | "x < 0" "y = 0" | "y < 0"
    using assms by linarith
  then show ?thesis
  proof cases
    case 1
    then show ?thesis using assms round_pos_mono by (simp add: float64_round_def)
  next
    case 2
    then show ?thesis
      using round_pos_pos [of y] round_pos_pos [of "- x"] by (auto simp add: float64_round_def)
  next
    case 3
    then show ?thesis by simp
  next
    case 4
    then show ?thesis using round_pos_pos [of "- x"] by (simp add: float64_round_def)
  next
    case 5
    then have "round_pos (- y) \<le> round_pos (- x)"
      using assms by (intro round_pos_mono) simp_all
    then show ?thesis using 5 assms by (simp add: float64_round_def)
  qed
qed

lemma float64_round_eq_0_iff: "float64_round x = 0 \<longleftrightarrow> x = 0"
  using round_pos_pos [of x] round_pos_pos [of "- x"]
  by (auto simp add: float64_round_def)

lemma round_pos_eval:
  assumes "0 < x" "2 powi k \<le> x" "x < 2 powi (k + 1)"
  shows "round_pos x = of_int (round_half_even (x / 2 powi (k - 52))) * 2 powi (k - 52)"
  using exponent_eqI [OF assms] by (simp add: round_pos_def)

lemma round_pos_of_int:
  assumes "0 < n" "n \<le> 2 ^ 53"
  shows "round_pos (of_int n) = of_int n"
proof -
  define k where "k = exponent (of_int n)"
  have pos: "(0::rat) < of_int n" using assms by simp
  have lo: "2 powi k \<le> (of_int n :: rat)" and hi: "(of_int n :: rat) < 2 powi (k + 1)"
    using exponent_bounds [OF pos] by (simp_all add: k_def)
  have "(1::rat) \<le> of_int n" using assms by simp
  then have "(2::rat) powi 0 < 2 powi (k + 1)" using hi by simp
  then have k0: "0 \<le> k"
    by (metis add.commute linorder_not_less one_less_numeral_iff power_int_increasing
        semiring_norm(76) order_less_imp_le zle_add1_eq_le zless_add1_eq)
  have "(of_int n :: rat) \<le> of_int (2 ^ 53)" using assms(2) by (simp only: of_int_le_iff)
  then have "(2::rat) powi k \<le> 2 powi 53" using lo by simp
  then have k53: "k \<le> 53"
    by (metis linorder_not_less one_less_numeral_iff power_int_strict_increasing semiring_norm(76))
  show ?thesis
  proof (cases "k \<le> 52")
    case True
    have "(of_int n :: rat) / 2 powi (k - 52) = of_int n * 2 powi (52 - k)"
      by (simp add: power_int_diff)
    also have "\<dots> = of_int (n * 2 ^ nat (52 - k))"
      using True by (simp add: power_int_nonneg_exp)
    finally have "round_half_even (of_int n / 2 powi (k - 52)) = n * 2 ^ nat (52 - k)"
      by (simp only: round_half_even_of_int)
    then have "round_pos (of_int n) = of_int (n * 2 ^ nat (52 - k)) * 2 powi (k - 52)"
      by (simp add: round_pos_def flip: k_def)
    also have "\<dots> = of_int n * (2 powi (52 - k) * 2 powi (k - 52))"
      using True by (simp add: power_int_nonneg_exp)
    also have "\<dots> = of_int n"
      by (simp flip: power_int_add)
    finally show ?thesis .
  next
    case False
    then have k: "k = 53" using k53 by simp
    have "(of_int (2 ^ 53) :: rat) \<le> of_int n" using lo by (simp add: k)
    then have "2 ^ 53 \<le> n" by (simp only: of_int_le_iff)
    then have n: "n = 2 ^ 53" using assms(2) by simp
    have "round_pos (of_int n) =
        of_int (round_half_even (of_int n / 2 powi (53 - 52))) * 2 powi (53 - 52)"
      unfolding round_pos_def using k k_def by simp
    also have "\<dots> = of_int n" by (simp add: n)
    finally show ?thesis .
  qed
qed

lemma float64_round_of_int:
  assumes "\<bar>n\<bar> \<le> 2 ^ 53"
  shows "float64_round (of_int n) = of_int n"
proof -
  consider "n = 0" | "0 < n" | "n < 0" by linarith
  then show ?thesis
  proof cases
    case 1
    then show ?thesis by (simp add: float64_round_def)
  next
    case 2
    then show ?thesis using assms round_pos_of_int [of n] by (simp add: float64_round_def)
  next
    case 3
    then show ?thesis using assms round_pos_of_int [of "- n"] by (simp add: float64_round_def)
  qed
qed

lemma float64_round_numeral:
  "(numeral n :: int) \<le> 2 ^ 53 \<Longrightarrow> float64_round (numeral n) = numeral n"
  using float64_round_of_int [of "numeral n"] by simp

lemma gap_above:
  fixes W H M a b :: int
  assumes "0 < H" "H \<le> M" "0 < b"
    and "(of_int a / of_int b :: rat) < of_int W / of_int H"
  shows "(of_int a / of_int b :: rat) + 1 / (of_int b * of_int M) \<le> of_int W / of_int H"
proof -
  have bH: "(0::rat) < of_int b * of_int H" using assms by simp
  have diff: "(of_int W / of_int H :: rat) - of_int a / of_int b
      = of_int (W * b - a * H) / (of_int b * of_int H)"
    using assms by (simp add: field_simps)
  then have "(0::rat) < of_int (W * b - a * H) / (of_int b * of_int H)"
    using assms(4) by linarith
  then have "(0::rat) < of_int (W * b - a * H)"
    using bH by (simp add: zero_less_divide_iff)
  then have "0 < W * b - a * H" by (simp only: of_int_0_less_iff)
  then have "1 \<le> W * b - a * H" by simp
  then have "(1::rat) \<le> of_int (W * b - a * H)" by (metis of_int_le_iff of_int_1)
  then have "(1::rat) / (of_int b * of_int H) \<le> of_int (W * b - a * H) / (of_int b * of_int H)"
    using bH by (intro divide_right_mono) simp_all
  moreover have "(1 :: rat) / (of_int b * of_int M) \<le> 1 / (of_int b * of_int H)"
    using assms by (intro divide_left_mono mult_pos_pos mult_left_mono) simp_all
  ultimately show ?thesis using diff by linarith
qed

lemma gap_below:
  fixes W H M a b :: int
  assumes "0 < H" "H \<le> M" "0 < b"
    and "(of_int W / of_int H :: rat) < of_int a / of_int b"
  shows "(of_int W / of_int H :: rat) \<le> of_int a / of_int b - 1 / (of_int b * of_int M)"
proof -
  have bH: "(0::rat) < of_int b * of_int H" using assms by simp
  have diff: "(of_int a / of_int b :: rat) - of_int W / of_int H
      = of_int (a * H - W * b) / (of_int b * of_int H)"
    using assms by (simp add: field_simps)
  then have "(0::rat) < of_int (a * H - W * b) / (of_int b * of_int H)"
    using assms(4) by linarith
  then have "(0::rat) < of_int (a * H - W * b)"
    using bH by (simp add: zero_less_divide_iff)
  then have "0 < a * H - W * b" by (simp only: of_int_0_less_iff)
  then have "1 \<le> a * H - W * b" by simp
  then have "(1::rat) \<le> of_int (a * H - W * b)" by (metis of_int_le_iff of_int_1)
  then have "(1::rat) / (of_int b * of_int H) \<le> of_int (a * H - W * b) / (of_int b * of_int H)"
    using bH by (intro divide_right_mono) simp_all
  moreover have "(1 :: rat) / (of_int b * of_int M) \<le> 1 / (of_int b * of_int H)"
    using assms by (intro divide_left_mono mult_pos_pos mult_left_mono) simp_all
  ultimately show ?thesis using diff by linarith
qed

lemma float64_round_eval:
  assumes "0 < x" "2 powi k \<le> x" "x < 2 powi (k + 1)"
  shows "float64_round x = of_int (round_half_even (x / 2 powi (k - 52))) * 2 powi (k - 52)"
  using assms round_pos_eval [OF assms] by (simp add: float64_round_def)

lemma round_half_even_divide:
  assumes "0 < q"
  shows "round_half_even (of_int p / of_int q) =
    (if 2 * (p mod q) < q then p div q
     else if q < 2 * (p mod q) then p div q + 1
     else if even (p div q) then p div q else p div q + 1)"
proof -
  have fl: "\<lfloor>(of_int p / of_int q :: rat)\<rfloor> = p div q"
    by (simp add: floor_divide_of_int_eq)
  have "(of_int p :: rat) = of_int (p div q * q + p mod q)" by simp
  also have "\<dots> = of_int (p div q) * of_int q + of_int (p mod q)"
    by (simp only: of_int_add of_int_mult)
  finally have "(of_int p / of_int q :: rat) = of_int (p div q) + of_int (p mod q) / of_int q"
    using assms by (simp add: field_simps)
  then have d: "(of_int p / of_int q :: rat) - of_int (p div q) = of_int (p mod q) / of_int q"
    by simp
  have lt: "(of_int (p mod q) / of_int q :: rat) < 1 / 2 \<longleftrightarrow> 2 * (p mod q) < q"
  proof -
    have "(of_int (p mod q) / of_int q :: rat) < 1 / 2 \<longleftrightarrow>
        (of_int (2 * (p mod q)) :: rat) < of_int q"
      using assms by (simp add: field_simps)
    then show ?thesis by (simp only: of_int_less_iff)
  qed
  have gt: "(1 / 2 :: rat) < of_int (p mod q) / of_int q \<longleftrightarrow> q < 2 * (p mod q)"
  proof -
    have "(1 / 2 :: rat) < of_int (p mod q) / of_int q \<longleftrightarrow>
        (of_int q :: rat) < of_int (2 * (p mod q))"
      using assms by (simp add: field_simps)
    then show ?thesis by (simp only: of_int_less_iff)
  qed
  show ?thesis
    unfolding round_half_even_def Let_def fl d lt gt ..
qed

lemma round_half_even_fraction:
  "round_half_even (numeral a / numeral b) =
    (if 2 * (numeral a mod numeral b) < (numeral b :: int) then numeral a div numeral b
     else if (numeral b :: int) < 2 * (numeral a mod numeral b) then numeral a div numeral b + 1
     else if even (numeral a div numeral b :: int) then numeral a div numeral b
     else numeral a div numeral b + 1)"
  using round_half_even_divide [of "numeral b" "numeral a"] by simp

lemma float64_17:
  "float64_round (17 / 10) = 7656119366529843 / 4503599627370496"
  using float64_round_eval [of "17 / 10" 0] by (simp add: round_half_even_fraction)

lemma float64_18:
  "float64_round (18 / 10) = 8106479329266893 / 4503599627370496"
  using float64_round_eval [of "18 / 10" 0] by (simp add: round_half_even_fraction)

lemma float64_55:
  "float64_round (55 / 100) = 4953959590107546 / 9007199254740992"
  using float64_round_eval [of "55 / 100" "- 1"] by (simp add: round_half_even_fraction)

lemma float64_57:
  "float64_round (57 / 100) = 5134103575202365 / 9007199254740992"
  using float64_round_eval [of "57 / 100" "- 1"] by (simp add: round_half_even_fraction)

text \<open>
  Heights of at most \<open>2 ^ 46\<close>: a quotient strictly inside or outside a band is then far
  enough from its bound for the rounded quotient to stay on the same side.
\<close>

lemma above_17: "float64_round (17 / 10) < float64_round (17 / 10 + 1 / (10 * 2 ^ 46))"
proof -
  have a: "float64_round (17 / 10 + 1 / (10 * 2 ^ 46)) = 7656119366529850 / 4503599627370496"
    using float64_round_eval [of "17 / 10 + 1 / (10 * 2 ^ 46)" 0]
    by (simp add: round_half_even_fraction)
  show ?thesis unfolding a float64_17 by simp
qed

lemma below_18: "float64_round (18 / 10 - 1 / (10 * 2 ^ 46)) < float64_round (18 / 10)"
proof -
  have a: "float64_round (18 / 10 - 1 / (10 * 2 ^ 46)) = 8106479329266886 / 4503599627370496"
    using float64_round_eval [of "18 / 10 - 1 / (10 * 2 ^ 46)" 0]
    by (simp add: round_half_even_fraction)
  show ?thesis unfolding a float64_18 by simp
qed

lemma above_55: "float64_round (55 / 100) < float64_round (55 / 100 + 1 / (100 * 2 ^ 46))"
proof -
  have a: "float64_round (55 / 100 + 1 / (100 * 2 ^ 46)) = 4953959590107547 / 9007199254740992"
    using float64_round_eval [of "55 / 100 + 1 / (100 * 2 ^ 46)" "- 1"]
    by (simp add: round_half_even_fraction)
  show ?thesis unfolding a float64_55 by simp
qed

lemma below_57: "float64_round (57 / 100 - 1 / (100 * 2 ^ 46)) < float64_round (57 / 100)"
proof -
  have a: "float64_round (57 / 100 - 1 / (100 * 2 ^ 46)) = 5134103575202364 / 9007199254740992"
    using float64_round_eval [of "57 / 100 - 1 / (100 * 2 ^ 46)" "- 1"]
    by (simp add: round_half_even_fraction)
  show ?thesis unfolding a float64_57 by simp
qed

lemma quotient_bands:
  fixes W H :: int
  assumes "0 < H" "H \<le> 2 ^ 46"
  defines "x \<equiv> (of_int W / of_int H :: rat)"
  shows "float64_round (17 / 10) < float64_round x \<longleftrightarrow> 17 / 10 < x"
    and "float64_round x < float64_round (18 / 10) \<longleftrightarrow> x < 18 / 10"
    and "float64_round (55 / 100) < float64_round x \<longleftrightarrow> 55 / 100 < x"
    and "float64_round x < float64_round (57 / 100) \<longleftrightarrow> x < 57 / 100"
proof -
  show "float64_round (17 / 10) < float64_round x \<longleftrightarrow> 17 / 10 < x"
  proof
    assume "float64_round (17 / 10) < float64_round x"
    then show "17 / 10 < x" using float64_round_mono [of x "17 / 10"] by linarith
  next
    assume "17 / 10 < x"
    then have "17 / 10 + 1 / (10 * 2 ^ 46) \<le> x"
      using gap_above [of H "2 ^ 46" 10 17 W] assms by simp
    then show "float64_round (17 / 10) < float64_round x"
      using float64_round_mono [of "17 / 10 + 1 / (10 * 2 ^ 46)" x] above_17 by linarith
  qed
  show "float64_round x < float64_round (18 / 10) \<longleftrightarrow> x < 18 / 10"
  proof
    assume "float64_round x < float64_round (18 / 10)"
    then show "x < 18 / 10" using float64_round_mono [of "18 / 10" x] by linarith
  next
    assume "x < 18 / 10"
    then have "x \<le> 18 / 10 - 1 / (10 * 2 ^ 46)"
      using gap_below [of H "2 ^ 46" 10 W 18] assms by simp
    then show "float64_round x < float64_round (18 / 10)"
      using float64_round_mono [of x "18 / 10 - 1 / (10 * 2 ^ 46)"] below_18 by linarith
  qed
  show "float64_round (55 / 100) < float64_round x \<longleftrightarrow> 55 / 100 < x"
  proof
    assume "float64_round (55 / 100) < float64_round x"
    then show "55 / 100 < x" using float64_round_mono [of x "55 / 100"] by linarith
  next
    assume "55 / 100 < x"
    then have "55 / 100 + 1 / (100 * 2 ^ 46) \<le> x"
      using gap_above [of H "2 ^ 46" 100 55 W] assms by simp
    then show "float64_round (55 / 100) < float64_round x"
      using float64_round_mono [of "55 / 100 + 1 / (100 * 2 ^ 46)" x] above_55 by linarith
  qed
  show "float64_round x < float64_round (57 / 100) \<longleftrightarrow> x < 57 / 100"
  proof
    assume "float64_round x < float64_round (57 / 100)"
    then show "x < 57 / 100" using float64_round_mono [of "57 / 100" x] by linarith
  next
    assume "x < 57 / 100"
    then have "x \<le> 57 / 100 - 1 / (100 * 2 ^ 46)"
      using gap_below [of H "2 ^ 46" 100 W 57] assms by simp
    then show "float64_round x < float64_round (57 / 100)"
      using float64_round_mono [of x "57 / 100 - 1 / (100 * 2 ^ 46)"] below_57 by linarith
  qed
qed

lemma rounded_quotient_bands:
  fixes W H :: int
  assumes "0 < H" "H \<le> 2 ^ 46"
  defines "x \<equiv> (of_int W / of_int H :: rat)"
    and "ratio \<equiv> float64_round (float64_round (of_int W) / of_int H)"
  shows "float64_round (17 / 10) < ratio \<longleftrightarrow> 17 / 10 < x"
    and "ratio < float64_round (18 / 10) \<longleftrightarrow> x < 18 / 10"
    and "float64_round (55 / 100) < ratio \<longleftrightarrow> 55 / 100 < x"
    and "ratio < float64_round (57 / 100) \<longleftrightarrow> x < 57 / 100"
proof -
  have Hpos: "(0::rat) < of_int H" using assms by simp
  have Hle: "(of_int H :: rat) \<le> 2 ^ 46"
    using assms(2) by (metis of_int_le_iff of_int_numeral of_int_power)
  consider (exact) "\<bar>W\<bar> \<le> 2 ^ 53" | (big) "2 ^ 53 < W" | (neg) "W < - (2 ^ 53)"
    by linarith
  then have "(float64_round (17 / 10) < ratio \<longleftrightarrow> 17 / 10 < x)
      \<and> (ratio < float64_round (18 / 10) \<longleftrightarrow> x < 18 / 10)
      \<and> (float64_round (55 / 100) < ratio \<longleftrightarrow> 55 / 100 < x)
      \<and> (ratio < float64_round (57 / 100) \<longleftrightarrow> x < 57 / 100)"
  proof cases
    case exact
    then have "ratio = float64_round x"
      by (simp add: ratio_def x_def float64_round_of_int)
    then show ?thesis
      using quotient_bands [OF assms(1,2), of W] by (simp add: x_def)
  next
    case big
    then have "(of_int (2 ^ 53) :: rat) \<le> of_int W" by (simp only: of_int_le_iff)
    then have W53: "(2 ^ 53 :: rat) \<le> of_int W" by simp
    have "float64_round (of_int (2 ^ 53)) \<le> float64_round (of_int W)"
      using W53 by (intro float64_round_mono) simp
    then have fW: "(2 ^ 53 :: rat) \<le> float64_round (of_int W)"
      by (simp add: float64_round_numeral)
    have "(128 :: rat) * of_int H \<le> 128 * 2 ^ 46" using Hle by simp
    also have "\<dots> = 2 ^ 53" by simp
    finally have H128: "(128 :: rat) * of_int H \<le> 2 ^ 53" .
    have "(128 :: rat) \<le> float64_round (of_int W) / of_int H"
      using H128 fW Hpos by (simp add: pos_le_divide_eq)
    then have "float64_round (of_int 128) \<le> ratio"
      unfolding ratio_def by (intro float64_round_mono) simp
    then have r: "128 \<le> ratio" by (simp add: float64_round_numeral)
    have x: "128 \<le> x"
      using H128 W53 Hpos by (simp add: x_def pos_le_divide_eq)
    show ?thesis
      using r x unfolding float64_17 float64_18 float64_55 float64_57 by simp
  next
    case neg
    then have W0: "(of_int W :: rat) < 0" by simp
    have "float64_round (of_int W) \<le> float64_round 0"
      using W0 by (intro float64_round_mono) simp
    then have "float64_round (of_int W) \<le> 0" by (simp add: float64_round_def)
    then have "float64_round (of_int W) / of_int H \<le> 0"
      using Hpos by (simp add: divide_le_0_iff)
    then have "ratio \<le> float64_round 0"
      unfolding ratio_def by (rule float64_round_mono)
    then have r: "ratio \<le> 0" by (simp add: float64_round_def)
    have x: "x < 0" using W0 Hpos by (simp add: x_def divide_less_0_iff)
    show ?thesis
      using r x unfolding float64_17 float64_18 float64_55 float64_57 by simp
  qed
  then show "float64_round (17 / 10) < ratio \<longleftrightarrow> 17 / 10 < x"
    and "ratio < float64_round (18 / 10) \<longleftrightarrow> x < 18 / 10"
    and "float64_round (55 / 100) < ratio \<longleftrightarrow> 55 / 100 < x"
    and "ratio < float64_round (57 / 100) \<longleftrightarrow> x < 57 / 100"
    by simp_all
qed

lemma aspect_of_bands:
  assumes "0 < sint h" "sint h \<le> 2 ^ 46"
  shows "aspect_of (\<lparr>Width = w, Height = h\<rparr> # rest) =
    (if 17 / 10 < (of_int (sint w) / of_int (sint h) :: rat)
        \<and> (of_int (sint w) / of_int (sint h) :: rat) < 18 / 10 then ''16:9''
     else if 55 / 100 < (of_int (sint w) / of_int (sint h) :: rat)
        \<and> (of_int (sint w) / of_int (sint h) :: rat) < 57 / 100 then ''9:16''
     else ''other'')"
proof -
  have H: "float64_round (of_int (sint h)) = of_int (sint h)"
    using assms by (intro float64_round_of_int) simp
  have nz: "(of_int (sint h) :: rat) \<noteq> 0" using assms by (simp del: of_int_sint)
  have "aspect_of (\<lparr>Width = w, Height = h\<rparr> # rest) =
    (if float64_round (17 / 10) < float64_round (float64_round (of_int (sint w)) / of_int (sint h))
        \<and> float64_round (float64_round (of_int (sint w)) / of_int (sint h)) < float64_round (18 / 10)
     then ''16:9''
     else if float64_round (55 / 100) < float64_round (float64_round (of_int (sint w)) / of_int (sint h))
        \<and> float64_round (float64_round (of_int (sint w)) / of_int (sint h)) < float64_round (57 / 100)
     then ''9:16''
     else ''other'')"
    unfolding aspect_of_def float64_of_int_def float64_div_def Let_def
    by (simp only: list.case ProbeStream.select_convs H nz if_False)
  then show ?thesis
    unfolding rounded_quotient_bands [OF assms] .
qed

lemma aspect_of_1920_1080:
  "aspect_of (\<lparr>Width = 1920, Height = 1080\<rparr> # rest) = ''16:9''"
  using aspect_of_bands [of 1080 1920 rest] by simp

lemma aspect_of_no_streams: "aspect_of [] = ''other''"
  by (simp add: aspect_of_def)

lemma aspect_of_zero_height: "aspect_of (\<lparr>Width = w, Height = 0\<rparr> # rest) = ''other''"
  by (simp add: aspect_of_def float64_of_int_def float64_round_def)

lemma float64_counterexample:
  "float64_round (3400000000000012 / 2000000000000007) = float64_round (17 / 10)"
proof -
  have "float64_round (3400000000000012 / 2000000000000007)
      = 7656119366529843 / 4503599627370496"
    using float64_round_eval [of "3400000000000012 / 2000000000000007" 0]
    by (simp add: round_half_even_fraction)
  then show ?thesis unfolding float64_17 .
qed

lemma aspect_of_counterexample:
  "aspect_of [\<lparr>Width = 3400000000000012, Height = 2000000000000007\<rparr>] = ''other''"
proof -
  have W: "float64_of_int 3400000000000012 = 3400000000000012"
    by (simp add: float64_of_int_def float64_round_numeral)
  have H: "float64_of_int 2000000000000007 = 2000000000000007"
    by (simp add: float64_of_int_def float64_round_numeral)
  have r: "float64_div 3400000000000012 2000000000000007 = 7656119366529843 / 4503599627370496"
    unfolding float64_div_def float64_counterexample float64_17 ..
  show ?thesis
    unfolding aspect_of_def Let_def list.case ProbeStream.select_convs W H r
      float64_17 float64_18 float64_55 float64_57
    by simp
qed

section \<open>Reasoning about traces\<close>

lemma emit_simps [simp]:
  "log (emit ev s) = log s @ [ev]" "db (emit ev s) = db s"
  "disk (emit ev s) = disk s" "s3 (emit ev s) = s3 s"
  by (simp_all add: emit_def)

lemma only_simps [simp]:
  "only Q (emit ev s) \<longleftrightarrow> only Q s \<and> Q ev"
  "only Q (s\<lparr>disk := d\<rparr>) = only Q s"
  "only Q (s\<lparr>s3 := objs\<rparr>) = only Q s"
  "only Q (s\<lparr>db := recs\<rparr>) = only Q s"
  by (simp_all add: only_def)

lemma quiet_simps [simp]:
  "quiet (emit ev s) \<longleftrightarrow> quiet s \<and> \<not> is_error ev"
  "quiet (s\<lparr>disk := d\<rparr>) = quiet s"
  "quiet (s\<lparr>s3 := objs\<rparr>) = quiet s"
  "quiet (s\<lparr>db := recs\<rparr>) = quiet s"
  by (simp_all add: quiet_def)

lemma fresh_simps [simp]:
  "fresh (emit ev s) \<longleftrightarrow> fresh s \<and> \<not> is_response ev"
  "fresh (s\<lparr>disk := d\<rparr>) = fresh s"
  "fresh (s\<lparr>s3 := objs\<rparr>) = fresh s"
  "fresh (s\<lparr>db := recs\<rparr>) = fresh s"
  by (simp_all add: fresh_def)

lemma is_error_response: "is_error ev \<Longrightarrow> is_response ev"
  by (cases ev) simp_all

lemma fresh_quiet: "fresh s \<Longrightarrow> quiet s"
  by (auto simp: fresh_def quiet_def list_ex_iff dest: is_error_response)

lemma stops_at_error_snoc:
  "stops_at_error (evs @ [ev]) \<longleftrightarrow>
     stops_at_error evs \<and> (is_cleanup ev \<or> \<not> list_ex is_error evs)"
  by (induction evs) auto

lemma no_error_stops: "\<not> list_ex is_error evs \<Longrightarrow> stops_at_error evs"
  by (induction evs) auto

lemma halted_simps [simp]:
  "halted (emit ev s) \<longleftrightarrow> halted s \<and> (is_cleanup ev \<or> quiet s)"
  "halted (s\<lparr>disk := d\<rparr>) = halted s"
  "halted (s\<lparr>s3 := objs\<rparr>) = halted s"
  "halted (s\<lparr>db := recs\<rparr>) = halted s"
  by (simp_all add: halted_def stops_at_error_snoc quiet_def)

lemma quiet_halted: "quiet s \<Longrightarrow> halted s"
  by (simp add: quiet_def halted_def no_error_stops)

lemma settled_simps [simp]:
  "\<not> is_response ev \<Longrightarrow> settled d ok (emit ev s) = settled d ok s"
  "settled d ok (s\<lparr>disk := dk\<rparr>) = settled d ok s"
  "settled d ok (s\<lparr>s3 := objs\<rparr>) = settled d ok s"
  by (simp_all add: settled_def)

lemma settled_error:
  "fresh s \<Longrightarrow> db s = d \<Longrightarrow> settled d ok (emit (Respond code msg err) s)"
  by (simp add: settled_def fresh_def list_ex_iff filter_empty_conv)

lemma settled_success:
  "fresh s \<Longrightarrow> ok v \<Longrightarrow> db s = d(ID v \<mapsto> v) \<Longrightarrow> settled d ok (emit (RespondJSON 200 v) s)"
  by (simp add: settled_def fresh_def list_ex_iff filter_empty_conv)

lemmas prim_defs = respondWithError_def respondWithJSON_def GetVideo_def UpdateVideo_def
  os_Remove_def file_Close_def Copy_to_def os_Open_def os_CreateTemp_in_def Seek_start_def
  Run_def rand_Read_def PutObject_def

subsection \<open>The video handler, stage by stage\<close>

lemma video_put_events:
  assumes "only (video_event cfg e video ct t) s"
    and "\<exists>d. key = s3KeyPrefix_of (aspect_of (probed e t d)) @ ''/''
                  @ EncodeToString (take 32 (entropy e)) @ ''.mp4''"
  shows "only (video_event cfg e video ct t)
           (video_put cfg e video ct key (t @ ''.processing'') body s)"
  using assms unfolding video_put_def prim_defs
  by (auto simp add: Let_def split: prod.splits option.splits)

lemma getVideoAspectRatio_result:
  "getVideoAspectRatio e t s = ((aspect, None), s') \<Longrightarrow>
     aspect = aspect_of (probed e t (disk s))"
  unfolding getVideoAspectRatio_def Run_def probed_def
  by (auto split: prod.splits option.splits)

lemma getVideoAspectRatio_world:
  "snd (getVideoAspectRatio e t s) =
     emit (Exec ''ffprobe'' [''-v'', ''error'', ''-print_format'', ''json'', ''-show_streams'', t])
       (s\<lparr>disk := fst (cmd_Run e ''ffprobe''
          [''-v'', ''error'', ''-print_format'', ''json'', ''-show_streams'', t] (disk s))\<rparr>)"
  unfolding getVideoAspectRatio_def Run_def
  by (auto split: prod.splits option.splits)

lemma video_classify_events:
  assumes "only (video_event cfg e video ct t) s"
  shows "only (video_event cfg e video ct t)
           (video_classify cfg e video ct t (t @ ''.processing'') s)"
proof (cases "getVideoAspectRatio e t s")
  case (Pair res s')
  obtain aspect err where res: "res = (aspect, err)" by (cases res)
  have s': "s' = snd (getVideoAspectRatio e t s)" using Pair by simp
  have inv: "only (video_event cfg e video ct t) s'"
    using assms by (simp add: s' getVideoAspectRatio_world)
  show ?thesis
  proof (cases err)
    case (Some er)
    then show ?thesis using inv Pair res
      by (simp add: video_classify_def prim_defs)
  next
    case None
    then have "aspect = aspect_of (probed e t (disk s))"
      using Pair res getVideoAspectRatio_result by blast
    then show ?thesis using inv Pair res None
      unfolding video_classify_def prim_defs
      by (auto simp add: Let_def intro!: video_put_events split: prod.splits option.splits)
  qed
qed

lemma video_stage_events:
  assumes "only (video_event cfg e video ct t) s"
  shows "only (video_event cfg e video ct t) (video_stage cfg e video ct file t s)"
  using assms unfolding video_stage_def processVideoForFastStart_def prim_defs
  by (auto simp add: Let_def video_classify_events split: prod.splits option.splits)

lemma video_validate_events:
  assumes "only (video_event cfg e video ct (tempName e)) s"
  shows "only (video_event cfg e video ct (tempName e)) (video_validate cfg e video file ct s)"
  using assms unfolding video_validate_def prim_defs tempName_def
  by (auto simp add: Let_def video_stage_events split: prod.splits option.splits)

lemma handlerUploadVideo_events:
  assumes "only (video_event cfg e (fetched s (fst (uuid_Parse e (PathValue r ''videoID''))))
             (declared r ''video'') (tempName e)) s"
  shows "only (video_event cfg e (fetched s (fst (uuid_Parse e (PathValue r ''videoID''))))
             (declared r ''video'') (tempName e)) (handlerUploadVideo cfg e r s)"
  using assms unfolding handlerUploadVideo_def prim_defs
  by (auto simp add: Let_def fetched_def declared_def video_validate_events
      split: prod.splits option.splits)

lemma video_put_stops:
  "quiet s \<Longrightarrow> halted (video_put cfg e video ct key path body s)"
  unfolding video_put_def prim_defs
  by (auto simp add: Let_def quiet_halted split: prod.splits option.splits)

lemma video_classify_stops:
  "quiet s \<Longrightarrow> halted (video_classify cfg e video ct t path s)"
  unfolding video_classify_def getVideoAspectRatio_def prim_defs
  by (auto simp add: Let_def quiet_halted video_put_stops split: prod.splits option.splits)

lemma video_stage_stops:
  "quiet s \<Longrightarrow> halted (video_stage cfg e video ct file t s)"
  unfolding video_stage_def processVideoForFastStart_def prim_defs
  by (auto simp add: Let_def quiet_halted video_classify_stops split: prod.splits option.splits)

lemma video_validate_stops:
  "quiet s \<Longrightarrow> halted (video_validate cfg e video file ct s)"
  unfolding video_validate_def prim_defs
  by (auto simp add: Let_def quiet_halted video_stage_stops split: prod.splits option.splits)

lemma handlerUploadVideo_stops:
  "quiet s \<Longrightarrow> halted (handlerUploadVideo cfg e r s)"
  unfolding handlerUploadVideo_def prim_defs
  by (auto simp add: Let_def quiet_halted video_validate_stops split: prod.splits option.splits)

lemma video_put_settled:
  "fresh s \<Longrightarrow> db s = d \<Longrightarrow>
   settled d (\<lambda>v. \<exists>url. v = video\<lparr>VideoURL := Some url\<rparr>)
     (video_put cfg e video ct key path body s)"
  unfolding video_put_def prim_defs
  by (auto simp add: Let_def settled_error intro!: settled_success
      split: prod.splits option.splits)

lemma video_classify_settled:
  "fresh s \<Longrightarrow> db s = d \<Longrightarrow>
   settled d (\<lambda>v. \<exists>url. v = video\<lparr>VideoURL := Some url\<rparr>)
     (video_classify cfg e video ct t path s)"
  unfolding video_classify_def getVideoAspectRatio_def prim_defs
  by (auto simp add: Let_def settled_error intro!: video_put_settled
      split: prod.splits option.splits)

lemma video_stage_settled:
  "fresh s \<Longrightarrow> db s = d \<Longrightarrow>
   settled d (\<lambda>v. \<exists>url. v = video\<lparr>VideoURL := Some url\<rparr>)
     (video_stage cfg e video ct file t s)"
  unfolding video_stage_def processVideoForFastStart_def prim_defs
  by (auto simp add: Let_def settled_error intro!: video_classify_settled
      split: prod.splits option.splits)

lemma video_validate_settled:
  "fresh s \<Longrightarrow> db s = d \<Longrightarrow>
   settled d (\<lambda>v. \<exists>url. v = video\<lparr>VideoURL := Some url\<rparr>)
     (video_validate cfg e video file ct s)"
  unfolding video_validate_def prim_defs
  by (auto simp add: Let_def settled_error intro!: video_stage_settled
      split: prod.splits option.splits)

lemma handlerUploadVideo_settled:
  "fresh s \<Longrightarrow>
   settled (db s)
     (\<lambda>v. \<exists>url. v = fetched s (fst (uuid_Parse e (PathValue r ''videoID'')))\<lparr>VideoURL := Some url\<rparr>)
     (handlerUploadVideo cfg e r s)"
  unfolding handlerUploadVideo_def prim_defs
  by (auto simp add: Let_def settled_error fetched_def intro!: video_validate_settled
      split: prod.splits option.splits)

subsection \<open>The thumbnail handler, stage by stage\<close>

lemma thumbnail_record_events:
  "only (thumbnail_event cfg stored) s \<Longrightarrow> db s videoID = stored \<Longrightarrow>
   only (thumbnail_event cfg stored) (thumbnail_record cfg e videoID userID filename s)"
  unfolding thumbnail_record_def prim_defs
  by (auto simp add: Let_def split: prod.splits option.splits)

lemma thumbnail_store_events:
  "only (thumbnail_event cfg stored) s \<Longrightarrow> db s videoID = stored \<Longrightarrow>
   only (thumbnail_event cfg stored) (thumbnail_store cfg e videoID userID file fileExt s)"
  unfolding thumbnail_store_def prim_defs
  by (auto simp add: Let_def intro!: thumbnail_record_events split: prod.splits option.splits)

lemma thumbnail_validate_events:
  "only (thumbnail_event cfg stored) s \<Longrightarrow> db s videoID = stored \<Longrightarrow>
   only (thumbnail_event cfg stored) (thumbnail_validate cfg e videoID userID file mediaType s)"
  unfolding thumbnail_validate_def prim_defs
  by (auto simp add: Let_def intro!: thumbnail_store_events split: prod.splits option.splits)

lemma handlerUploadThumbnail_events:
  "only (thumbnail_event cfg (db s (fst (uuid_Parse e (PathValue r ''videoID''))))) s \<Longrightarrow>
   only (thumbnail_event cfg (db s (fst (uuid_Parse e (PathValue r ''videoID'')))))
     (handlerUploadThumbnail cfg e r s)"
  unfolding handlerUploadThumbnail_def prim_defs
  by (auto simp add: Let_def intro!: thumbnail_validate_events split: prod.splits option.splits)

lemma thumbnail_record_settled:
  "fresh s \<Longrightarrow> db s = d \<Longrightarrow>
   settled d (\<lambda>v. \<exists>video. d videoID = Some video \<and> (\<exists>url. v = video\<lparr>ThumbnailURL := Some url\<rparr>))
     (thumbnail_record cfg e videoID userID filename s)"
  unfolding thumbnail_record_def prim_defs
  by (auto simp add: Let_def settled_error intro!: settled_success
      split: prod.splits option.splits)

lemma thumbnail_store_settled:
  "fresh s \<Longrightarrow> db s = d \<Longrightarrow>
   settled d (\<lambda>v. \<exists>video. d videoID = Some video \<and> (\<exists>url. v = video\<lparr>ThumbnailURL := Some url\<rparr>))
     (thumbnail_store cfg e videoID userID file fileExt s)"
  unfolding thumbnail_store_def prim_defs
  by (auto simp add: Let_def settled_error intro!: thumbnail_record_settled
      split: prod.splits option.splits)

lemma thumbnail_validate_settled:
  "fresh s \<Longrightarrow> db s = d \<Longrightarrow>
   settled d (\<lambda>v. \<exists>video. d videoID = Some video \<and> (\<exists>url. v = video\<lparr>ThumbnailURL := Some url\<rparr>))
     (thumbnail_validate cfg e videoID userID file mediaType s)"
  unfolding thumbnail_validate_def prim_defs
  by (auto simp add: Let_def settled_error intro!: thumbnail_store_settled
      split: prod.splits option.splits)

lemma handlerUploadThumbnail_settled:
  "fresh s \<Longrightarrow>
   settled (db s)
     (\<lambda>v. \<exists>video. db s (fst (uuid_Parse e (PathValue r ''videoID''))) = Some video
        \<and> (\<exists>url. v = video\<lparr>ThumbnailURL := Some url\<rparr>))
     (handlerUploadThumbnail cfg e r s)"
  unfolding handlerUploadThumbnail_def prim_defs
  by (auto simp add: Let_def settled_error intro!: thumbnail_validate_settled
      split: prod.splits option.splits)

subsection \<open>A record that is not in the store\<close>

lemma handlerUploadVideo_not_found:
  assumes "db s (fst (uuid_Parse e (PathValue r ''videoID''))) = None"
  shows "\<exists>code msg err. handlerUploadVideo cfg e r s = emit (Respond code msg err) s
     \<or> handlerUploadVideo cfg e r s =
        emit (Respond code msg err) (emit (DbGet (fst (uuid_Parse e (PathValue r ''videoID'')))) s)"
  using assms unfolding handlerUploadVideo_def GetVideo_def respondWithError_def
  by (auto split: prod.splits option.splits)

lemmas demo_defs = demo_cfg_def demo_env_def demo_request_def demo_world_def demo_video_def
  demo_ParseMediaType_def alice_def bob_def

section \<open>Thumbnail validation\<close>



section \<open>Classification\<close>

text \<open>
  C1, as amended. When \<open>getVideoAspectRatio\<close> returns a tag, the prefix derived from it is
  \<^verbatim>\<open>other\<close> if the prober reports no stream or a first stream of height 0, and, for a first
  stream of height between 1 and \<open>2 ^ 46\<close> and any width, \<^verbatim>\<open>landscape\<close> exactly when
  \<open>1.70 < width / height < 1.80\<close>, \<^verbatim>\<open>portrait\<close> exactly when
  \<open>0.55 < width / height < 0.57\<close>, and \<^verbatim>\<open>other\<close> otherwise, the quotient being the exact one.
\<close>

theorem classification_bands:
  assumes "getVideoAspectRatio e filePath s = ((aspectRatio, None), s')"
    and "probed e filePath (disk s) = streams"
  shows "(streams = [] \<longrightarrow> s3KeyPrefix_of aspectRatio = ''other'')
    \<and> (\<forall>w rest. streams = \<lparr>Width = w, Height = 0\<rparr> # rest
          \<longrightarrow> s3KeyPrefix_of aspectRatio = ''other'')
    \<and> (\<forall>w h rest. streams = \<lparr>Width = w, Height = h\<rparr> # rest \<and> 0 < sint h \<and> sint h \<le> 2 ^ 46
          \<longrightarrow> s3KeyPrefix_of aspectRatio =
             (if 17 / 10 < (of_int (sint w) / of_int (sint h) :: rat)
                 \<and> (of_int (sint w) / of_int (sint h) :: rat) < 18 / 10 then ''landscape''
              else if 55 / 100 < (of_int (sint w) / of_int (sint h) :: rat)
                 \<and> (of_int (sint w) / of_int (sint h) :: rat) < 57 / 100 then ''portrait''
              else ''other''))"
proof -
  have a: "aspectRatio = aspect_of streams"
    using assms getVideoAspectRatio_result by blast
  show ?thesis
    unfolding a
    by (auto simp add: aspect_of_no_streams aspect_of_zero_height aspect_of_bands s3KeyPrefix_of_def
        simp del: of_int_sint)
qed

theorem classification_bands_witness:
  "probed demo_env ''/tmp/tubely-upload-1.mp4'' (disk demo_world)
     = [\<lparr>Width = 1920, Height = 1080\<rparr>]
   \<and> 0 < sint (1080 :: 64 word) \<and> sint (1080 :: 64 word) \<le> 2 ^ 46
   \<and> s3KeyPrefix_of (fst (fst (getVideoAspectRatio demo_env ''/tmp/tubely-upload-1.mp4''
         demo_world))) = ''landscape''"
proof -
  let ?p = "''/tmp/tubely-upload-1.mp4''"
  let ?r = "getVideoAspectRatio demo_env ?p demo_world"
  have g: "?r = ((fst (fst ?r), None), snd ?r)"
    by (simp add: getVideoAspectRatio_def Run_def demo_defs)
  have p: "probed demo_env ?p (disk demo_world) = [\<lparr>Width = 1920, Height = 1080\<rparr>]"
    by (simp add: probed_def demo_defs)
  have "\<forall>w h rest. [\<lparr>Width = 1920, Height = 1080\<rparr>] = \<lparr>Width = w, Height = h\<rparr> # rest
          \<and> 0 < sint h \<and> sint h \<le> 2 ^ 46
          \<longrightarrow> s3KeyPrefix_of (fst (fst ?r)) =
             (if 17 / 10 < (of_int (sint w) / of_int (sint h) :: rat)
                 \<and> (of_int (sint w) / of_int (sint h) :: rat) < 18 / 10 then ''landscape''
              else if 55 / 100 < (of_int (sint w) / of_int (sint h) :: rat)
                 \<and> (of_int (sint w) / of_int (sint h) :: rat) < 57 / 100 then ''portrait''
              else ''other'')"
    using classification_bands [OF g p] by blast
  then have "s3KeyPrefix_of (fst (fst ?r)) = ''landscape''"
    by simp
  then show ?thesis using p by simp
qed

text \<open>
  Without the bound on the height the bands are those of the rounded quotient: for
  3400000000000012 by 2000000000000007 the exact quotient lies above 1.70, the
  \<^verbatim>\<open>float64\<close> quotient equals the \<^verbatim>\<open>float64\<close> nearest to 1.7, and the tag is \<^verbatim>\<open>other\<close>.
\<close>

theorem classification_counterexample:
  "0 < sint (2000000000000007 :: 64 word)
   \<and> (17 / 10 :: rat) < of_int (sint (3400000000000012 :: 64 word))
                          / of_int (sint (2000000000000007 :: 64 word))
   \<and> (of_int (sint (3400000000000012 :: 64 word))
        / of_int (sint (2000000000000007 :: 64 word)) :: rat) < 18 / 10
   \<and> s3KeyPrefix_of (aspect_of [\<lparr>Width = 3400000000000012, Height = 2000000000000007\<rparr>])
       = ''other''"
  by (simp add: aspect_of_counterexample s3KeyPrefix_of_def)

end
